theory Spec2Isabelle
  imports Main "HOL-Library.Word"
begin

section \<open>Values of the program\<close>

text \<open>
  A Python \<open>str\<close> is a sequence of Unicode code points and \<open>len\<close> counts code points,
  so a string of the program is a list of code points. \<open>lit\<close> embeds the ASCII literals
  of the source. \<open>bytes\<close> are lists of octets.
\<close>

type_synonym pystr = "nat list"
type_synonym bytes = "8 word list"

definition lit :: "string \<Rightarrow> pystr" where
  "lit s = map of_char s"

text \<open>
  The exceptions of the model are the instances of Python's \<open>Exception\<close>, the class
  every handler of the source catches; the value carries \<open>str(e)\<close>, which the handlers
  interpolate into their messages.
\<close>

datatype exn = Exception (str: pystr)

text \<open>Truthiness of a value that is \<open>None\<close> or a \<open>str\<close>: \<open>None\<close> and \<open>""\<close> are falsy.\<close>

definition truthy :: "pystr option \<Rightarrow> bool" where
  "truthy v = (case v of None \<Rightarrow> False | Some s \<Rightarrow> s \<noteq> [])"

text \<open>\<open>f"{v}"\<close> for a value that is \<open>None\<close> or a \<open>str\<close>.\<close>

definition format_value :: "pystr option \<Rightarrow> pystr" where
  "format_value v = (case v of None \<Rightarrow> lit ''None'' | Some s \<Rightarrow> s)"

text \<open>\<open>xs[i:j]\<close> for \<open>0 \<le> i \<le> j\<close>: Python clips a slice at the end of the sequence.\<close>

definition py_slice :: "'a list \<Rightarrow> nat \<Rightarrow> nat \<Rightarrow> 'a list" where
  "py_slice xs i j = take (j - i) (drop i xs)"

text \<open>\<open>range(start, stop, step)\<close> for a positive step: \<open>start, start + step, ...\<close> below \<open>stop\<close>.\<close>

definition py_range :: "nat \<Rightarrow> nat \<Rightarrow> nat \<Rightarrow> nat list" where
  "py_range start stop step =
     map (\<lambda>k. start + k * step) [0 ..< (stop - start + step - 1) div step]"

text \<open>\<open>xs[0]\<close>: an \<open>IndexError\<close> on the empty list.\<close>

definition first_item :: "'a list \<Rightarrow> exn + 'a" where
  "first_item xs =
     (case xs of [] \<Rightarrow> Inl (Exception (lit ''list index out of range'')) | x # _ \<Rightarrow> Inr x)"

subsection \<open>Requests and responses of the two backends\<close>

text \<open>
  A chat message is a role and a content; the content is a plain string (the probes) or
  a list of typed parts (the description request).
\<close>

datatype part = Text_part pystr | Image_url_part pystr

datatype content = Plain pystr | Parts "part list"

datatype message = Message (role: pystr) (content: content)

datatype chat_request =
  Chat_request (chat_model: "pystr option") (messages: "message list") (max_tokens: nat)

text \<open>
  A chat response is its list of choices; what the program reads of a choice is
  \<open>message.content\<close>, a string or \<open>None\<close>.
\<close>

datatype chat_response = Chat_response (choices: "pystr option list")

datatype speech_request =
  Speech_request (speech_model: "pystr option") (voice: "pystr option") (input: pystr)

text \<open>An image decoded by \<open>Image.open\<close>, and the file object the uploader hands over.\<close>

datatype pil_image = Decoded bytes

datatype uploaded_file = Uploaded pystr bytes

subsection \<open>Observable events\<close>

text \<open>
  Every call the program makes to the user interface, to a backend or to the file
  system is recorded, in order, in the trace of the run. Each function of the source
  also records its own entry, so that "this function is called" is a fact about the
  trace.
\<close>

datatype fn =
    Check_qwen_model_availability
  | Check_openai_tts_availability
  | Encode_image
  | Generate_text_from_image
  | Text_to_speech
  | Main

datatype st_call =
    St_set_page_config pystr pystr pystr
  | St_markdown pystr bool
  | St_title pystr
  | St_write pystr
  | St_info pystr
  | St_warning pystr
  | St_error pystr
  | St_success pystr
  | St_file_uploader pystr "pystr list"
  | St_selectbox pystr "pystr list"
  | St_image pil_image pystr bool
  | St_button pystr
  | St_spinner pystr
  | St_audio bytes pystr
  | St_download_button pystr bytes pystr pystr

datatype event =
    Invoke fn
  | Chat_create chat_request
  | Speech_create speech_request
  | Stream_to_file pystr bytes
  | St st_call

section \<open>The world around the program\<close>

text \<open>
  The state a run threads through: the trace so far, the files of the working
  directory, and how many requests each backend and the file system have received.
\<close>

record world =
  trace :: "event list"
  files :: "pystr \<rightharpoonup> bytes"
  qwen_calls :: nat
  openai_calls :: nat
  fs_writes :: nat

text \<open>
  What the program does not decide: the outcome of the \<open>k\<close>-th request to each backend
  (a response, or an exception), the outcome of the \<open>k\<close>-th write of a file (\<open>None\<close> when
  it succeeds; otherwise the exception and what is left at the path), the two library
  encoders, the decoder of an upload, and what the user did with the three widgets.
\<close>

record env =
  qwen_create :: "nat \<Rightarrow> chat_request \<Rightarrow> exn + chat_response"
  speech_create :: "nat \<Rightarrow> speech_request \<Rightarrow> exn + bytes"
  write_fault :: "nat \<Rightarrow> (exn \<times> bytes option) option"
  save_png :: "pil_image \<Rightarrow> exn + bytes"
  b64encode :: "bytes \<Rightarrow> pystr"
  image_open :: "uploaded_file \<Rightarrow> exn + pil_image"
  file_uploader :: "uploaded_file option"
  selectbox :: "pystr list \<Rightarrow> pystr"
  button :: bool

definition emit :: "event \<Rightarrow> world \<Rightarrow> world" where
  "emit e w = w\<lparr>trace := trace w @ [e]\<rparr>"

definition emits :: "event list \<Rightarrow> world \<Rightarrow> world" where
  "emits evs w = w\<lparr>trace := trace w @ evs\<rparr>"

text \<open>\<open>qwen_client.chat.completions.create(...)\<close>: one request, its outcome from the backend.\<close>

definition chat_completions_create ::
  "env \<Rightarrow> chat_request \<Rightarrow> world \<Rightarrow> (exn + chat_response) \<times> world" where
  "chat_completions_create env req w =
     (qwen_create env (qwen_calls w) req,
      (emit (Chat_create req) w)\<lparr>qwen_calls := Suc (qwen_calls w)\<rparr>)"

text \<open>\<open>openai_client.audio.speech.create(...)\<close>: one request, its outcome from the backend.\<close>

definition audio_speech_create ::
  "env \<Rightarrow> speech_request \<Rightarrow> world \<Rightarrow> (exn + bytes) \<times> world" where
  "audio_speech_create env req w =
     (speech_create env (openai_calls w) req,
      (emit (Speech_create req) w)\<lparr>openai_calls := Suc (openai_calls w)\<rparr>)"

text \<open>
  Modelled from the spec: \<open>response.stream_to_file(path)\<close> is a method of the OpenAI
  client library, which is not part of the repository. The spec has it stream the
  binary result to the path, overwriting any existing file there (the library opens the
  path for writing in binary mode, which truncates it). When the write fails the
  exception is raised and the path holds what the file system left.
\<close>

definition stream_to_file :: "env \<Rightarrow> bytes \<Rightarrow> pystr \<Rightarrow> world \<Rightarrow> exn option \<times> world" where
  "stream_to_file env audio path w =
     (let w1 = (emit (Stream_to_file path audio) w)\<lparr>fs_writes := Suc (fs_writes w)\<rparr>
      in case write_fault env (fs_writes w) of
           None \<Rightarrow> (None, w1\<lparr>files := (files w1)(path \<mapsto> audio)\<rparr>)
         | Some (e, left) \<Rightarrow> (Some e, w1\<lparr>files := (files w1)(path := left)\<rparr>))"

section \<open>The two availability probes\<close>

text \<open>\<open>messages=[{"role": "user", "content": "Test"}]\<close>\<close>

definition probe_messages :: "message list" where
  "probe_messages = [Message (lit ''user'') (Plain (lit ''Test''))]"

definition primary_model :: pystr where
  "primary_model = lit ''qwen2-vl-7b-instruct''"

definition fallback_model :: pystr where
  "fallback_model = lit ''qwen-vl-max''"

definition tts_model_name :: pystr where
  "tts_model_name = lit ''tts-1-hd''"

text \<open>The probe of a vision model: \<open>model=..., messages=[...], max_tokens=1\<close>.\<close>

definition probe_request :: "pystr \<Rightarrow> chat_request" where
  "probe_request model_name = Chat_request (Some model_name) probe_messages 1"

text \<open>The probe of the speech model: \<open>model="tts-1-hd", voice="alloy", input="Test"\<close>.\<close>

definition tts_probe_request :: speech_request where
  "tts_probe_request = Speech_request (Some tts_model_name) (Some (lit ''alloy'')) (lit ''Test'')"

text \<open>
  \<open>check_qwen_model_availability()\<close>: the request against the primary model; in its
  handler the warning, then the request against the fallback model; in the inner
  handler the error and \<open>(False, None)\<close>.
\<close>

definition check_qwen_model_availability ::
  "env \<Rightarrow> world \<Rightarrow> (bool \<times> pystr option) \<times> world" where
  "check_qwen_model_availability env w0 =
     (let w = emit (Invoke Check_qwen_model_availability) w0 in
      case chat_completions_create env (probe_request primary_model) w of
        (Inr response, w1) \<Rightarrow> ((True, Some primary_model), w1)
      | (Inl e, w1) \<Rightarrow>
          let w2 = emit (St (St_warning
                     (lit ''Qwen Model (qwen2-vl-7b-instruct) not available: '' @ str e))) w1
          in (case chat_completions_create env (probe_request fallback_model) w2 of
                (Inr response, w3) \<Rightarrow> ((True, Some fallback_model), w3)
              | (Inl fallback_e, w3) \<Rightarrow>
                  ((False, None),
                   emit (St (St_error
                     (lit ''Fallback Qwen Model (qwen-vl-max) not available: '' @ str fallback_e)))
                     w3)))"

text \<open>
  \<open>check_openai_tts_availability()\<close>: one request against \<open>tts-1-hd\<close> with the voice
  \<open>alloy\<close> and the input \<open>Test\<close>; in the handler an error, a warning and \<open>(False, None)\<close>.
\<close>

definition check_openai_tts_availability ::
  "env \<Rightarrow> world \<Rightarrow> (bool \<times> pystr option) \<times> world" where
  "check_openai_tts_availability env w0 =
     (let w = emit (Invoke Check_openai_tts_availability) w0 in
      case audio_speech_create env tts_probe_request w of
        (Inr response, w1) \<Rightarrow> ((True, Some tts_model_name), w1)
      | (Inl e, w1) \<Rightarrow>
          ((False, None),
           emits [St (St_error (lit ''OpenAI TTS model (tts-1-hd) not available: '' @ str e)),
                  St (St_warning (lit
                    ''TTS functionality is unavailable. The app will display the text description only.''))]
             w1))"

section \<open>The description generator\<close>

text \<open>
  \<open>encode_image(image)\<close>: the image saved as PNG into a buffer, then the buffer in
  base64 as a string. Saving can raise (a mode PNG cannot hold); nothing catches it here.
\<close>

definition encode_image :: "env \<Rightarrow> pil_image \<Rightarrow> world \<Rightarrow> (exn + pystr) \<times> world" where
  "encode_image env img w0 =
     (let w = emit (Invoke Encode_image) w0 in
      case save_png env img of
        Inl e \<Rightarrow> (Inl e, w)
      | Inr buffered \<Rightarrow> (Inr (b64encode env buffered), w))"

text \<open>The one request of \<open>generate_text_from_image\<close>.\<close>

definition description_request :: "pystr option \<Rightarrow> pystr \<Rightarrow> chat_request" where
  "description_request model_name base64_image =
     Chat_request model_name
       [Message (lit ''user'')
          (Parts [Text_part (lit ''Describe the content of the image in detail.''),
                  Image_url_part (lit ''data:image/png;base64,'' @ base64_image)])]
       500"

text \<open>
  \<open>generate_text_from_image(image, model_name)\<close>. \<open>encode_image\<close> is called before the
  \<open>try\<close>, so its exception leaves the function. The request and the read of
  \<open>response.choices[0].message.content\<close> are inside the \<open>try\<close>: their exceptions are
  reported with \<open>st.error\<close> and turned into \<open>None\<close>.
\<close>

definition generate_text_from_image ::
  "env \<Rightarrow> pil_image \<Rightarrow> pystr option \<Rightarrow> world \<Rightarrow> (exn + pystr option) \<times> world" where
  "generate_text_from_image env img model_name w0 =
     (let w = emit (Invoke Generate_text_from_image) w0;
          report = (\<lambda>e. St (St_error (lit ''Error generating text from image: '' @ str e)))
      in case encode_image env img w of
           (Inl e, w1) \<Rightarrow> (Inl e, w1)
         | (Inr base64_image, w1) \<Rightarrow>
             (case chat_completions_create env
                     (description_request model_name base64_image) w1 of
                (Inl e, w2) \<Rightarrow> (Inr None, emit (report e) w2)
              | (Inr response, w2) \<Rightarrow>
                  (case first_item (choices response) of
                     Inl e \<Rightarrow> (Inr None, emit (report e) w2)
                   | Inr message_content \<Rightarrow> (Inr message_content, w2))))"

section \<open>The speech synthesizer\<close>

definition max_length :: nat where
  "max_length = 4096"

text \<open>\<open>[text[i:i + max_length] for i in range(0, len(text), max_length)]\<close>\<close>

definition chunks_of :: "pystr \<Rightarrow> pystr list" where
  "chunks_of text =
     map (\<lambda>i. py_slice text i (i + max_length)) (py_range 0 (length text) max_length)"

text \<open>
  \<open>text_to_speech(text, voice_type, tts_model)\<close>. The early return on a falsy model comes
  first; the chunk list is built outside the \<open>try\<close>; the subscript \<open>chunks[0]\<close>, the
  request and the write are inside it, so each of their exceptions is reported with
  \<open>st.error\<close> and turned into \<open>None\<close>.
\<close>

definition text_to_speech ::
  "env \<Rightarrow> pystr \<Rightarrow> pystr option \<Rightarrow> pystr option \<Rightarrow> world \<Rightarrow> pystr option \<times> world" where
  "text_to_speech env text voice_type tts_model w0 =
     (let w = emit (Invoke Text_to_speech) w0 in
      if \<not> truthy tts_model then (None, w)
      else
        let chunks = chunks_of text;
            report = (\<lambda>e. St (St_error (lit ''Error in text-to-speech conversion: '' @ str e)))
        in case first_item chunks of
             Inl e \<Rightarrow> (None, emit (report e) w)
           | Inr chunk \<Rightarrow>
               (case audio_speech_create env (Speech_request tts_model voice_type chunk) w of
                  (Inl e, w1) \<Rightarrow> (None, emit (report e) w1)
                | (Inr response, w1) \<Rightarrow>
                    let speech_file_path = lit ''speech.mp3'' in
                    (case stream_to_file env response speech_file_path w1 of
                       (Some e, w2) \<Rightarrow> (None, emit (report e) w2)
                     | (None, w2) \<Rightarrow> (Some speech_file_path, w2))))"

section \<open>The orchestrator\<close>

text \<open>The style sheet passed to \<open>st.markdown\<close>.\<close>

definition custom_css :: pystr where
  "custom_css =
     lit ''\<newline>'' @
     lit ''        <style>\<newline>'' @
     lit ''        :root {\<newline>'' @
     lit ''            --primary-color: #00ff9d;\<newline>'' @
     lit ''            --background-color: #121212;\<newline>'' @
     lit ''            --text-color: #ffffff;\<newline>'' @
     lit ''        }\<newline>'' @
     lit ''        .stApp {\<newline>'' @
     lit ''            background-color: var(--background-color);\<newline>'' @
     lit ''            color: var(--text-color);\<newline>'' @
     lit ''        }\<newline>'' @
     lit ''        .stButton>button {\<newline>'' @
     lit ''            background-color: var(--primary-color);\<newline>'' @
     lit ''            color: var(--background-color);\<newline>'' @
     lit ''        }\<newline>'' @
     lit ''        </style>\<newline>'' @
     lit ''    ''"

text \<open>Lines 116 to 139 of \<open>main\<close>: the page configuration, the style sheet, the title and the two notes.\<close>

definition page_events :: "event list" where
  "page_events =
       [St (St_set_page_config (lit ''Vision-to-Speech Assistant'') [129302] (lit ''centered'')),
        St (St_markdown custom_css True),
        St (St_title (lit ''Vision-to-Speech Assistant'')),
        St (St_write (lit
          ''Upload an image, and the app will describe it and convert the description to speech (if available).'')),
        St (St_info (lit
          ''Note: Only the first 4096 characters of the description will be converted to speech to avoid external dependencies.''))]"

definition page_setup :: "world \<Rightarrow> world" where
  "page_setup w = emits page_events w"

definition voices :: "pystr list" where
  "voices = [lit ''alloy'', lit ''echo'', lit ''fable'', lit ''onyx'', lit ''nova'', lit ''shimmer'']"

text \<open>\<open>open(speech_file_path, 'rb').read()\<close>: the bytes at the path, or the error of a missing file.\<close>

definition read_file :: "pystr \<Rightarrow> world \<Rightarrow> exn + bytes" where
  "read_file path w =
     (case files w path of
        None \<Rightarrow> Inl (Exception (lit ''[Errno 2] No such file or directory: '' @ [39] @ path @ [39]))
      | Some data \<Rightarrow> Inr data)"

text \<open>
  Lines 163 to 185 of \<open>main\<close>, the body of \<open>if st.button("Generate Description and Speech")\<close>:
  the description is generated; \<open>if description:\<close> holds for a non-empty string only;
  then the description is written and, when the speech probe succeeded, synthesized,
  read back and offered for playback and download. A \<open>Path\<close> is always truthy, so
  \<open>if speech_file_path:\<close> tests the result for \<open>None\<close>.
\<close>

definition generate_description_and_speech ::
  "env \<Rightarrow> pil_image \<Rightarrow> pystr option \<Rightarrow> bool \<Rightarrow> pystr option \<Rightarrow> pystr option \<Rightarrow> world
     \<Rightarrow> (exn + unit) \<times> world" where
  "generate_description_and_speech env img qwen_model tts_available voice_type tts_model w0 =
     (case generate_text_from_image env img qwen_model
             (emit (St (St_spinner (lit ''Generating text description...''))) w0) of
        (Inl e, w1) \<Rightarrow> (Inl e, w1)
      | (Inr None, w1) \<Rightarrow> (Inr (), w1)
      | (Inr (Some description), w1) \<Rightarrow>
          if description = [] then (Inr (), w1)
          else
            let w2 = emits [St (St_write (lit ''**Generated Description:**'')),
                            St (St_write description)] w1
            in if tts_available then
                 (case text_to_speech env description voice_type tts_model
                         (emit (St (St_spinner (lit ''Converting to speech...''))) w2) of
                    (None, w3) \<Rightarrow> (Inr (), w3)
                  | (Some speech_file_path, w3) \<Rightarrow>
                      (case read_file speech_file_path w3 of
                         Inl e \<Rightarrow> (Inl e, w3)
                       | Inr audio_bytes \<Rightarrow>
                           (Inr (),
                            emits [St (St_audio audio_bytes (lit ''audio/mp3'')),
                                   St (St_download_button (lit ''Download Speech'') audio_bytes
                                         (lit ''speech.mp3'') (lit ''audio/mp3''))] w3)))
               else
                 (Inr (),
                  emit (St (St_warning (lit
                    ''Text-to-speech is unavailable due to model access restrictions. The description is displayed above.'')))
                    w2))"

text \<open>
  \<open>main()\<close>: the page, the vision probe and the early return when no vision model
  answers, the speech probe, the uploader, the voice selector (only when speech is
  available), and, once an image is there, the image, the button and the flow above.
  \<open>Image.open\<close> stands outside every handler.
\<close>

definition main :: "env \<Rightarrow> world \<Rightarrow> (exn + unit) \<times> world" where
  "main env w0 =
     (case check_qwen_model_availability env (page_setup (emit (Invoke Main) w0)) of
        ((qwen_available, qwen_model), w1) \<Rightarrow>
          if \<not> qwen_available then
            (Inr (),
             emit (St (St_error (lit
               ''No Qwen vision model available. Please check your API key or available models in Alibaba Cloud Model Studio.'')))
               w1)
          else
            (case check_openai_tts_availability env
                    (emit (St (St_success (lit ''Using Qwen model: '' @ format_value qwen_model)))
                       w1) of
               ((tts_available, tts_model), w2) \<Rightarrow>
                 let w3 = emit (St (St_file_uploader (lit ''Choose an image'')
                                      [lit ''png'', lit ''jpg'', lit ''jpeg''])) w2;
                     uploaded_image = file_uploader env;
                     (voice_type, w4) =
                       (if tts_available
                        then (Some (selectbox env voices),
                              emit (St (St_selectbox (lit ''Choose the voice:'') voices)) w3)
                        else (None, w3))
                 in (case uploaded_image of
                       None \<Rightarrow> (Inr (), w4)
                     | Some uploaded \<Rightarrow>
                         (case image_open env uploaded of
                            Inl e \<Rightarrow> (Inl e, w4)
                          | Inr img \<Rightarrow>
                              let w5 = emits
                                    [St (St_image img (lit ''Uploaded Image'') True),
                                     St (St_button (lit ''Generate Description and Speech''))] w4
                              in if button env
                                 then generate_description_and_speech env img qwen_model
                                        tts_available voice_type tts_model w5
                                 else (Inr (), w5)))))"

section \<open>Reading a trace\<close>

text \<open>The synthesis requests in a trace, in order.\<close>

fun speech_request_of :: "event \<Rightarrow> speech_request list" where
  "speech_request_of (Speech_create r) = [r]"
| "speech_request_of _ = []"

definition speech_requests :: "event list \<Rightarrow> speech_request list" where
  "speech_requests evs = concat (map speech_request_of evs)"

text \<open>The chat requests in a trace, in order.\<close>

fun chat_request_of :: "event \<Rightarrow> chat_request list" where
  "chat_request_of (Chat_create r) = [r]"
| "chat_request_of _ = []"

definition chat_requests :: "event list \<Rightarrow> chat_request list" where
  "chat_requests evs = concat (map chat_request_of evs)"

text \<open>
  The events of speech output: the entry of \<open>text_to_speech\<close>, the audio player and
  the download button.
\<close>

fun offers_speech :: "event \<Rightarrow> bool" where
  "offers_speech (Invoke Text_to_speech) = True"
| "offers_speech (St (St_audio _ _)) = True"
| "offers_speech (St (St_download_button _ _ _ _)) = True"
| "offers_speech _ = False"

text \<open>The widgets of the page below the two probes, and the spinners.\<close>

fun is_widget :: "event \<Rightarrow> bool" where
  "is_widget (St (St_file_uploader _ _)) = True"
| "is_widget (St (St_selectbox _ _)) = True"
| "is_widget (St (St_image _ _ _)) = True"
| "is_widget (St (St_button _)) = True"
| "is_widget (St (St_spinner _)) = True"
| "is_widget _ = False"

text \<open>The events that put text on the page with \<open>st.write\<close>.\<close>

fun displays_text :: "event \<Rightarrow> bool" where
  "displays_text (St (St_write _)) = True"
| "displays_text _ = False"

text \<open>The events a run adds to the trace between two of its worlds.\<close>

definition new_events :: "world \<Rightarrow> world \<Rightarrow> event list" where
  "new_events w w' = drop (length (trace w)) (trace w')"

text \<open>The files written in a trace, in order.\<close>

fun file_write_of :: "event \<Rightarrow> (pystr \<times> bytes) list" where
  "file_write_of (Stream_to_file p b) = [(p, b)]"
| "file_write_of _ = []"

definition file_writes :: "event list \<Rightarrow> (pystr \<times> bytes) list" where
  "file_writes evs = concat (map file_write_of evs)"

section \<open>A concrete run\<close>

text \<open>
  A fresh world, and an environment in which both backends answer, the file system
  writes, an image was uploaded, the voice \<open>nova\<close> was chosen and the button pressed.
\<close>

definition start :: world where
  "start = \<lparr>trace = [], files = Map.empty, qwen_calls = 0, openai_calls = 0, fs_writes = 0\<rparr>"

definition demo_env :: env where
  "demo_env =
     \<lparr>qwen_create = (\<lambda>k r. Inr (Chat_response [Some (lit ''A cat on a sofa.'')])),
      speech_create = (\<lambda>k r. Inr [73, 68, 51]),
      write_fault = (\<lambda>k. None),
      save_png = (\<lambda>i. Inr [137, 80, 78, 71]),
      b64encode = (\<lambda>b. lit ''iVBORw=='' ),
      image_open = (\<lambda>u. Inr (Decoded [0, 0, 0])),
      file_uploader = Some (Uploaded (lit ''cat.png'') [137, 80, 78, 71]),
      selectbox = (\<lambda>options. lit ''nova''),
      button = True\<rparr>"

text \<open>The same run with both backends unreachable.\<close>

definition offline_env :: env where
  "offline_env =
     demo_env\<lparr>qwen_create := (\<lambda>k r. Inl (Exception (lit ''Connection error.''))),
              speech_create := (\<lambda>k r. Inl (Exception (lit ''Connection error.'')))\<rparr>"

text \<open>The same run with the speech backend refusing the key.\<close>

definition mute_env :: env where
  "mute_env =
     demo_env\<lparr>speech_create := (\<lambda>k r. Inl (Exception (lit ''Incorrect API key provided.'')))\<rparr>"

text \<open>The same run with a vision backend that answers the probes and describes nothing.\<close>

definition blank_env :: env where
  "blank_env =
     demo_env\<lparr>qwen_create :=
       (\<lambda>k r. if max_tokens r = 1 then Inr (Chat_response [Some (lit ''Hi'')])
              else Inr (Chat_response [Some []]))\<rparr>"

section \<open>Basic facts\<close>

lemma lit_eq_Nil [simp]: "lit s = [] \<longleftrightarrow> s = []"
  by (simp add: lit_def)

lemma trace_emit [simp]: "trace (emit e w) = trace w @ [e]"
  and files_emit [simp]: "files (emit e w) = files w"
  and qwen_calls_emit [simp]: "qwen_calls (emit e w) = qwen_calls w"
  and openai_calls_emit [simp]: "openai_calls (emit e w) = openai_calls w"
  and fs_writes_emit [simp]: "fs_writes (emit e w) = fs_writes w"
  by (simp_all add: emit_def)

lemma trace_emits [simp]: "trace (emits evs w) = trace w @ evs"
  and files_emits [simp]: "files (emits evs w) = files w"
  and qwen_calls_emits [simp]: "qwen_calls (emits evs w) = qwen_calls w"
  and openai_calls_emits [simp]: "openai_calls (emits evs w) = openai_calls w"
  and fs_writes_emits [simp]: "fs_writes (emits evs w) = fs_writes w"
  by (simp_all add: emits_def)

lemma new_events_append [simp]: "trace w' = trace w @ evs \<Longrightarrow> new_events w w' = evs"
  by (simp add: new_events_def)

lemma chat_requests_append [simp]: "chat_requests (xs @ ys) = chat_requests xs @ chat_requests ys"
  by (simp add: chat_requests_def)

lemma chat_requests_Nil [simp]: "chat_requests [] = []"
  by (simp add: chat_requests_def)

lemma chat_requests_Cons [simp]:
  "chat_requests (e # evs) = chat_request_of e @ chat_requests evs"
  by (simp add: chat_requests_def)

lemma speech_requests_append [simp]:
  "speech_requests (xs @ ys) = speech_requests xs @ speech_requests ys"
  by (simp add: speech_requests_def)

lemma speech_requests_Nil [simp]: "speech_requests [] = []"
  by (simp add: speech_requests_def)

lemma speech_requests_Cons [simp]:
  "speech_requests (e # evs) = speech_request_of e @ speech_requests evs"
  by (simp add: speech_requests_def)

lemma file_writes_append [simp]: "file_writes (xs @ ys) = file_writes xs @ file_writes ys"
  by (simp add: file_writes_def)

lemma file_writes_Nil [simp]: "file_writes [] = []"
  by (simp add: file_writes_def)

lemma file_writes_Cons [simp]: "file_writes (e # evs) = file_write_of e @ file_writes evs"
  by (simp add: file_writes_def)

lemma py_range_0: "py_range 0 0 step = []"
  by (cases "step = 0") (simp_all add: py_range_def)

lemma py_range_pos:
  assumes "0 < n" and "0 < step"
  shows "\<exists>rest. py_range 0 n step = 0 # rest"
proof -
  from assms have "step \<le> n + step - 1" by simp
  with assms(2) have "0 < (n + step - 1) div step"
    by (simp add: div_greater_zero_iff)
  then obtain m where m: "(n + step - 1) div step = Suc m"
    by (cases "(n + step - 1) div step") auto
  have "[0 ..< Suc m] = 0 # [Suc 0 ..< Suc m]"
    by (rule upt_conv_Cons) simp
  with m show ?thesis
    by (simp add: py_range_def del: upt_Suc)
qed

lemma chunks_of_Nil: "chunks_of [] = []"
  by (simp add: chunks_of_def py_range_0)

lemma first_item_chunks_of:
  "text \<noteq> [] \<Longrightarrow> first_item (chunks_of text) = Inr (take max_length text)"
proof -
  assume "text \<noteq> []"
  then obtain rest where "py_range 0 (length text) max_length = 0 # rest"
    using py_range_pos [of "length text" max_length] by (auto simp: max_length_def)
  then show ?thesis
    by (simp add: chunks_of_def first_item_def py_slice_def)
qed

lemma first_item_chunks_of_take:
  "first_item (chunks_of (take max_length text)) = first_item (chunks_of text)"
proof (cases "text = []")
  case True
  then show ?thesis by simp
next
  case False
  then have "take max_length text \<noteq> []" by (simp add: max_length_def)
  with False show ?thesis by (simp add: first_item_chunks_of)
qed

section \<open>The speech synthesizer: what is synthesized and what is written\<close>

text \<open>
  C1. For a text longer than 4096 characters, the only synthesis request that
  \<open>text_to_speech\<close> adds to the trace carries exactly \<open>text[0:4096]\<close> as its input (and
  with a falsy model the guard returns before any request). Nothing after the first
  4096 characters is used: the call has the same result and leaves the same world as
  the call on the first 4096 characters alone.
\<close>

theorem text_to_speech_first_slice_only:
  assumes "4096 < length text"
  shows "speech_requests (trace (snd (text_to_speech env text voice_type tts_model w))) =
           speech_requests (trace w) @
             (if truthy tts_model then [Speech_request tts_model voice_type (take 4096 text)]
              else [])
         \<and> text_to_speech env text voice_type tts_model w =
             text_to_speech env (take 4096 text) voice_type tts_model w"
proof -
  from assms have ne: "text \<noteq> []" by auto
  have "speech_requests (trace (snd (text_to_speech env text voice_type tts_model w))) =
           speech_requests (trace w) @
             (if truthy tts_model then [Speech_request tts_model voice_type (take 4096 text)]
              else [])"
    by (simp add: text_to_speech_def first_item_chunks_of [OF ne] max_length_def
        audio_speech_create_def stream_to_file_def Let_def
        split: sum.splits option.splits prod.splits)
  moreover have "text_to_speech env text voice_type tts_model w =
             text_to_speech env (take 4096 text) voice_type tts_model w"
    using first_item_chunks_of_take [of "text"]
    by (simp add: text_to_speech_def max_length_def Let_def)
  ultimately show ?thesis by simp
qed

theorem text_to_speech_first_slice_only_witness:
  "4096 < length (replicate 4097 (97::nat)) \<and>
   speech_requests (trace (snd (text_to_speech demo_env (replicate 4097 97)
       (Some (lit ''nova'')) (Some tts_model_name) start))) =
     [Speech_request (Some tts_model_name) (Some (lit ''nova'')) (replicate 4096 97)]"
  using text_to_speech_first_slice_only
    [of "replicate 4097 97" demo_env "Some (lit ''nova'')" "Some tts_model_name" start,
     THEN conjunct1]
  by (simp add: start_def truthy_def tts_model_name_def)

text \<open>
  C6. \<open>text_to_speech\<close> returns the path \<open>speech.mp3\<close> exactly when the model is truthy,
  the text is not empty, the synthesis request succeeds and the write succeeds, and
  \<open>None\<close> otherwise. When it returns the path, the one file it wrote is \<open>speech.mp3\<close> and
  that file holds exactly the audio of this synthesis, whatever it held before. No
  other path of the working directory is ever changed.
\<close>

theorem text_to_speech_writes_speech_mp3:
  "fst (text_to_speech env text voice_type tts_model w) =
     (if truthy tts_model \<and> text \<noteq> [] \<and>
         \<not> isl (speech_create env (openai_calls w)
                  (Speech_request tts_model voice_type (take 4096 text))) \<and>
         write_fault env (fs_writes w) = None
      then Some (lit ''speech.mp3'') else None)
   \<and> (fst (text_to_speech env text voice_type tts_model w) \<noteq> None \<longrightarrow>
        files (snd (text_to_speech env text voice_type tts_model w)) =
          (files w)(lit ''speech.mp3'' \<mapsto>
             projr (speech_create env (openai_calls w)
                      (Speech_request tts_model voice_type (take 4096 text)))) \<and>
        file_writes (trace (snd (text_to_speech env text voice_type tts_model w))) =
          file_writes (trace w) @
            [(lit ''speech.mp3'',
              projr (speech_create env (openai_calls w)
                      (Speech_request tts_model voice_type (take 4096 text))))])
   \<and> (\<forall>p. p \<noteq> lit ''speech.mp3'' \<longrightarrow>
        files (snd (text_to_speech env text voice_type tts_model w)) p = files w p)"
proof (cases "text = []")
  case True
  then show ?thesis
    by (simp add: text_to_speech_def chunks_of_Nil first_item_def Let_def)
next
  case False
  then show ?thesis
    by (simp add: text_to_speech_def first_item_chunks_of max_length_def
        audio_speech_create_def stream_to_file_def Let_def
        split: sum.splits option.splits prod.splits)
qed

theorem text_to_speech_writes_speech_mp3_witness:
  "fst (text_to_speech demo_env (lit ''A cat.'') (Some (lit ''nova'')) (Some tts_model_name)
          (start\<lparr>files := [lit ''speech.mp3'' \<mapsto> [0, 0, 0, 0, 0]]\<rparr>)) = Some (lit ''speech.mp3'')
   \<and> files (snd (text_to_speech demo_env (lit ''A cat.'') (Some (lit ''nova''))
          (Some tts_model_name) (start\<lparr>files := [lit ''speech.mp3'' \<mapsto> [0, 0, 0, 0, 0]]\<rparr>)))
        (lit ''speech.mp3'') = Some [73, 68, 51]"
  using text_to_speech_writes_speech_mp3
    [of demo_env "lit ''A cat.''" "Some (lit ''nova'')" "Some tts_model_name"
        "start\<lparr>files := [lit ''speech.mp3'' \<mapsto> [0, 0, 0, 0, 0]]\<rparr>"]
  by (simp add: start_def demo_env_def truthy_def tts_model_name_def)

text \<open>
  C10. For the empty text \<open>text_to_speech\<close> returns \<open>None\<close>, issues no synthesis request
  and writes no file. With a truthy model the chunk list is empty, \<open>chunks[0]\<close> raises
  the \<open>IndexError\<close>, and the handler reports it: the error message is the only thing the
  call shows.
\<close>

theorem text_to_speech_empty_text:
  "fst (text_to_speech env [] voice_type tts_model w) = None
   \<and> speech_requests (trace (snd (text_to_speech env [] voice_type tts_model w))) =
       speech_requests (trace w)
   \<and> file_writes (trace (snd (text_to_speech env [] voice_type tts_model w))) =
       file_writes (trace w)
   \<and> files (snd (text_to_speech env [] voice_type tts_model w)) = files w
   \<and> (truthy tts_model \<longrightarrow>
        chunks_of [] = [] \<and>
        first_item (chunks_of []) = Inl (Exception (lit ''list index out of range'')) \<and>
        trace (snd (text_to_speech env [] voice_type tts_model w)) =
          trace w @ [Invoke Text_to_speech,
                     St (St_error (lit ''Error in text-to-speech conversion: '' @
                                   lit ''list index out of range''))])"
proof (cases "truthy tts_model")
  case False
  then have "text_to_speech env [] voice_type tts_model w = (None, emit (Invoke Text_to_speech) w)"
    by (simp add: text_to_speech_def)
  with False show ?thesis by simp
next
  case True
  have raised: "first_item (chunks_of []) = Inl (Exception (lit ''list index out of range''))"
    by (simp add: chunks_of_Nil first_item_def)
  with True have "text_to_speech env [] voice_type tts_model w =
      (None, emit (St (St_error (lit ''Error in text-to-speech conversion: '' @
                                 lit ''list index out of range'')))
               (emit (Invoke Text_to_speech) w))"
    by (simp add: text_to_speech_def)
  with raised show ?thesis by (simp add: chunks_of_Nil)
qed

theorem text_to_speech_empty_text_witness:
  "truthy (Some tts_model_name) \<and>
   text_to_speech demo_env [] (Some (lit ''alloy'')) (Some tts_model_name) start =
     (None, start\<lparr>trace := [Invoke Text_to_speech,
                     St (St_error (lit ''Error in text-to-speech conversion: '' @
                                   lit ''list index out of range''))]\<rparr>)"
  using text_to_speech_empty_text [of demo_env "Some (lit ''alloy'')" "Some tts_model_name" start]
  by (simp add: text_to_speech_def chunks_of_Nil first_item_def Let_def truthy_def
      tts_model_name_def start_def emit_def)

section \<open>The probes\<close>

lemma models_distinct: "primary_model \<noteq> fallback_model"
  by (simp add: primary_model_def fallback_model_def lit_def)

text \<open>
  C2. The chat requests of one call of \<open>check_qwen_model_availability\<close> are the probe of
  \<open>qwen2-vl-7b-instruct\<close> alone when that probe succeeds, and that probe followed by the
  probe of \<open>qwen-vl-max\<close> when it raises. The two requests differ, so each model is
  attempted at most once and nothing is retried.
\<close>

theorem check_qwen_fallback_only_after_failure:
  "chat_requests (new_events w (snd (check_qwen_model_availability env w))) =
     (if isl (qwen_create env (qwen_calls w) (probe_request primary_model))
      then [probe_request primary_model, probe_request fallback_model]
      else [probe_request primary_model])
   \<and> probe_request primary_model \<noteq> probe_request fallback_model
   \<and> primary_model = lit ''qwen2-vl-7b-instruct'' \<and> fallback_model = lit ''qwen-vl-max''"
proof -
  have "chat_requests (new_events w (snd (check_qwen_model_availability env w))) =
     (if isl (qwen_create env (qwen_calls w) (probe_request primary_model))
      then [probe_request primary_model, probe_request fallback_model]
      else [probe_request primary_model])"
    by (simp add: check_qwen_model_availability_def chat_completions_create_def Let_def
        new_events_def split: sum.splits)
  moreover have "probe_request primary_model \<noteq> probe_request fallback_model"
    by (simp add: probe_request_def models_distinct)
  ultimately show ?thesis
    by (simp add: primary_model_def fallback_model_def)
qed

theorem check_qwen_fallback_only_after_failure_witness:
  "chat_requests (new_events start (snd (check_qwen_model_availability demo_env start))) =
     [probe_request primary_model]
   \<and> chat_requests (new_events start (snd (check_qwen_model_availability offline_env start))) =
     [probe_request primary_model, probe_request fallback_model]"
  using check_qwen_fallback_only_after_failure [of start demo_env] check_qwen_fallback_only_after_failure [of start offline_env]
  by (simp add: demo_env_def offline_env_def start_def)

text \<open>
  C7. \<open>check_openai_tts_availability\<close> issues exactly one request, the probe of
  \<open>tts-1-hd\<close>. When it succeeds the result is \<open>(True, "tts-1-hd")\<close> and nothing is shown.
  When it raises the result is \<open>(False, None)\<close> and exactly two messages follow the
  request: the error for the failed probe, then the warning that speech is skipped.
\<close>

theorem check_openai_tts_single_probe:
  "(case speech_create env (openai_calls w) tts_probe_request of
      Inr response \<Rightarrow>
        fst (check_openai_tts_availability env w) = (True, Some (lit ''tts-1-hd'')) \<and>
        new_events w (snd (check_openai_tts_availability env w)) =
          [Invoke Check_openai_tts_availability, Speech_create tts_probe_request]
    | Inl e \<Rightarrow>
        fst (check_openai_tts_availability env w) = (False, None) \<and>
        new_events w (snd (check_openai_tts_availability env w)) =
          [Invoke Check_openai_tts_availability, Speech_create tts_probe_request,
           St (St_error (lit ''OpenAI TTS model (tts-1-hd) not available: '' @ str e)),
           St (St_warning (lit
             ''TTS functionality is unavailable. The app will display the text description only.''))])
   \<and> tts_probe_request =
       Speech_request (Some (lit ''tts-1-hd'')) (Some (lit ''alloy'')) (lit ''Test'')"
  by (simp add: check_openai_tts_availability_def audio_speech_create_def Let_def
      new_events_def tts_probe_request_def tts_model_name_def split: sum.splits)

theorem check_openai_tts_single_probe_witness:
  "fst (check_openai_tts_availability demo_env start) = (True, Some (lit ''tts-1-hd''))
   \<and> fst (check_openai_tts_availability offline_env start) = (False, None)
   \<and> new_events start (snd (check_openai_tts_availability offline_env start)) =
          [Invoke Check_openai_tts_availability, Speech_create tts_probe_request,
           St (St_error (lit ''OpenAI TTS model (tts-1-hd) not available: '' @
                         lit ''Connection error.'')),
           St (St_warning (lit
             ''TTS functionality is unavailable. The app will display the text description only.''))]"
  using check_openai_tts_single_probe [of demo_env start] check_openai_tts_single_probe [of offline_env start]
  by (simp add: demo_env_def offline_env_def start_def)

text \<open>
  C9. Each probe returns one of its listed pairs: \<open>(True, model)\<close> for a model it
  probed, or \<open>(False, None)\<close>. So the flag is true exactly when the model is not
  \<open>None\<close>.
\<close>

theorem probe_result_invariant:
  "fst (check_qwen_model_availability env w) \<in>
     {(True, Some (lit ''qwen2-vl-7b-instruct'')), (True, Some (lit ''qwen-vl-max'')), (False, None)}
   \<and> fst (check_openai_tts_availability env w') \<in> {(True, Some (lit ''tts-1-hd'')), (False, None)}
   \<and> (fst (fst (check_qwen_model_availability env w)) \<longleftrightarrow>
        snd (fst (check_qwen_model_availability env w)) \<noteq> None)
   \<and> (fst (fst (check_openai_tts_availability env w')) \<longleftrightarrow>
        snd (fst (check_openai_tts_availability env w')) \<noteq> None)"
  by (simp add: check_qwen_model_availability_def chat_completions_create_def
      check_openai_tts_availability_def audio_speech_create_def Let_def
      primary_model_def fallback_model_def tts_model_name_def split: sum.splits)

section \<open>The description generator: result and errors\<close>

text \<open>
  C5. Once the image is encoded, \<open>generate_text_from_image\<close> issues its one request.
  When the backend answers with at least one choice, the function returns the content
  of the first choice and shows nothing. When the backend raises, the function reports
  the error with \<open>st.error\<close> and returns \<open>None\<close>; the exception does not leave the
  function.
\<close>

theorem generate_text_from_image_result:
  assumes "save_png env img = Inr png"
  shows "(case qwen_create env (qwen_calls w)
                (description_request model_name (b64encode env png)) of
            Inl e \<Rightarrow>
              fst (generate_text_from_image env img model_name w) = Inr None \<and>
              new_events w (snd (generate_text_from_image env img model_name w)) =
                [Invoke Generate_text_from_image, Invoke Encode_image,
                 Chat_create (description_request model_name (b64encode env png)),
                 St (St_error (lit ''Error generating text from image: '' @ str e))]
          | Inr response \<Rightarrow>
              (case choices response of
                 first_choice # others \<Rightarrow>
                   fst (generate_text_from_image env img model_name w) = Inr first_choice \<and>
                   new_events w (snd (generate_text_from_image env img model_name w)) =
                     [Invoke Generate_text_from_image, Invoke Encode_image,
                      Chat_create (description_request model_name (b64encode env png))]
               | [] \<Rightarrow>
                   fst (generate_text_from_image env img model_name w) = Inr None))"
  using assms
  by (simp add: generate_text_from_image_def encode_image_def chat_completions_create_def
      first_item_def Let_def new_events_def split: sum.splits list.splits)

theorem generate_text_from_image_result_witness:
  "save_png demo_env (Decoded [0, 0, 0]) = Inr [137, 80, 78, 71]
   \<and> fst (generate_text_from_image demo_env (Decoded [0, 0, 0]) (Some primary_model) start) =
       Inr (Some (lit ''A cat on a sofa.''))
   \<and> fst (generate_text_from_image offline_env (Decoded [0, 0, 0]) (Some primary_model) start) =
       Inr None"
  using generate_text_from_image_result [where env = demo_env and img = "Decoded [0, 0, 0]" and png = "[137, 80, 78, 71]"
              and w = start and model_name = "Some primary_model"]
    generate_text_from_image_result [where env = offline_env and img = "Decoded [0, 0, 0]" and png = "[137, 80, 78, 71]"
              and w = start and model_name = "Some primary_model"]
  by (simp add: demo_env_def offline_env_def)

section \<open>The orchestrator: what a run reaches\<close>

lemma trace_page_setup: "trace (page_setup w) = trace w @ page_events"
  and qwen_calls_page_setup: "qwen_calls (page_setup w) = qwen_calls w"
  and openai_calls_page_setup: "openai_calls (page_setup w) = openai_calls w"
  by (simp_all add: page_setup_def)

lemma offers_speech_page_events: "filter offers_speech page_events = []"
  by (simp add: page_events_def)

lemma check_qwen_cases:
  obtains (primary) r where "qwen_create env (qwen_calls w) (probe_request primary_model) = Inr r"
      "check_qwen_model_availability env w =
         ((True, Some primary_model),
          w\<lparr>trace := trace w @ [Invoke Check_qwen_model_availability,
                                 Chat_create (probe_request primary_model)],
            qwen_calls := Suc (qwen_calls w)\<rparr>)"
  | (fallback) e r where "qwen_create env (qwen_calls w) (probe_request primary_model) = Inl e"
      "qwen_create env (Suc (qwen_calls w)) (probe_request fallback_model) = Inr r"
      "check_qwen_model_availability env w =
         ((True, Some fallback_model),
          w\<lparr>trace := trace w @ [Invoke Check_qwen_model_availability,
                                 Chat_create (probe_request primary_model),
                                 St (St_warning (lit ''Qwen Model (qwen2-vl-7b-instruct) not available: '' @ str e)),
                                 Chat_create (probe_request fallback_model)],
            qwen_calls := Suc (Suc (qwen_calls w))\<rparr>)"
  | (unavailable) e1 e2 where "qwen_create env (qwen_calls w) (probe_request primary_model) = Inl e1"
      "qwen_create env (Suc (qwen_calls w)) (probe_request fallback_model) = Inl e2"
      "check_qwen_model_availability env w =
         ((False, None),
          w\<lparr>trace := trace w @ [Invoke Check_qwen_model_availability,
                                 Chat_create (probe_request primary_model),
                                 St (St_warning (lit ''Qwen Model (qwen2-vl-7b-instruct) not available: '' @ str e1)),
                                 Chat_create (probe_request fallback_model),
                                 St (St_error (lit ''Fallback Qwen Model (qwen-vl-max) not available: '' @ str e2))],
            qwen_calls := Suc (Suc (qwen_calls w))\<rparr>)"
proof (cases "qwen_create env (qwen_calls w) (probe_request primary_model)")
  case (Inr r)
  then show ?thesis
    by (intro primary [of r]) (simp_all add: check_qwen_model_availability_def chat_completions_create_def emit_def)
next
  case (Inl e)
  show ?thesis
  proof (cases "qwen_create env (Suc (qwen_calls w)) (probe_request fallback_model)")
    case (Inr r)
    with Inl show ?thesis
      by (intro fallback [of e r]) (simp_all add: check_qwen_model_availability_def chat_completions_create_def emit_def)
  next
    case Inl2: (Inl e2)
    with Inl show ?thesis
      by (intro unavailable [of e e2]) (simp_all add: check_qwen_model_availability_def chat_completions_create_def emit_def)
  qed
qed

lemma check_tts_unavailable:
  assumes "speech_create env (openai_calls w) tts_probe_request = Inl e"
  shows "check_openai_tts_availability env w =
           ((False, None),
            w\<lparr>trace := trace w @
                 [Invoke Check_openai_tts_availability, Speech_create tts_probe_request,
                  St (St_error (lit ''OpenAI TTS model (tts-1-hd) not available: '' @ str e)),
                  St (St_warning (lit
                    ''TTS functionality is unavailable. The app will display the text description only.''))],
              openai_calls := Suc (openai_calls w)\<rparr>)"
  using assms
  by (simp add: check_openai_tts_availability_def audio_speech_create_def emit_def emits_def)

lemma offers_speech_generate:
  "filter offers_speech (trace (snd (generate_text_from_image env img m w))) =
     filter offers_speech (trace w)"
  by (simp add: generate_text_from_image_def encode_image_def chat_completions_create_def
      Let_def split: sum.splits)

lemma displays_text_generate:
  "filter displays_text (trace (snd (generate_text_from_image env img m w))) =
     filter displays_text (trace w)"
  by (simp add: generate_text_from_image_def encode_image_def chat_completions_create_def
      Let_def split: sum.splits)

lemma generate_succeeds:
  assumes "save_png env img = Inr png"
    and "qwen_create env (qwen_calls w) (description_request m (b64encode env png)) =
           Inr (Chat_response (c # cs))"
  shows "generate_text_from_image env img m w =
           (Inr c,
            w\<lparr>trace := trace w @
                 [Invoke Generate_text_from_image, Invoke Encode_image,
                  Chat_create (description_request m (b64encode env png))],
              qwen_calls := Suc (qwen_calls w)\<rparr>)"
  using assms
  by (simp add: generate_text_from_image_def encode_image_def chat_completions_create_def
      first_item_def emit_def)

lemma offers_speech_check_qwen:
  "filter offers_speech (trace (snd (check_qwen_model_availability env w))) =
     filter offers_speech (trace w)"
  by (cases env w rule: check_qwen_cases) simp_all

lemma openai_calls_check_qwen:
  "openai_calls (snd (check_qwen_model_availability env w)) = openai_calls w"
  by (cases env w rule: check_qwen_cases) simp_all

lemma flow_without_speech:
  "filter offers_speech
     (trace (snd (generate_description_and_speech env img m False voice_type tts_model w))) =
   filter offers_speech (trace w)"
proof -
  let ?w = "emit (St (St_spinner (lit ''Generating text description...''))) w"
  have "filter offers_speech (trace (snd (generate_text_from_image env img m ?w))) =
          filter offers_speech (trace w)"
    by (simp add: offers_speech_generate)
  then show ?thesis
    by (auto simp add: generate_description_and_speech_def
        split: prod.splits sum.splits option.splits)
qed

lemma falsy_description_ends_flow:
  assumes "generate_text_from_image env img qwen_model
             (emit (St (St_spinner (lit ''Generating text description...''))) w) =
           (Inr description, w1)"
    and "\<not> truthy description"
  shows "generate_description_and_speech env img qwen_model tts_available voice_type tts_model w =
           (Inr (), w1)
    \<and> filter displays_text (trace w1) = filter displays_text (trace w)
    \<and> filter offers_speech (trace w1) = filter offers_speech (trace w)"
proof -
  let ?w = "emit (St (St_spinner (lit ''Generating text description...''))) w"
  have "filter displays_text (trace (snd (generate_text_from_image env img qwen_model ?w))) =
          filter displays_text (trace w)"
    by (simp add: displays_text_generate)
  moreover
  have "filter offers_speech (trace (snd (generate_text_from_image env img qwen_model ?w))) =
          filter offers_speech (trace w)"
    by (simp add: offers_speech_generate)
  moreover
  have "generate_description_and_speech env img qwen_model tts_available voice_type tts_model w =
           (Inr (), w1)"
    using assms
    by (simp add: generate_description_and_speech_def truthy_def split: option.splits)
  ultimately show ?thesis
    using assms(1) by simp
qed

lemma offers_speech_check_tts:
  "filter offers_speech (trace (snd (check_openai_tts_availability env w))) =
     filter offers_speech (trace w)"
  by (simp add: check_openai_tts_availability_def audio_speech_create_def Let_def
      split: sum.splits)

text \<open>
  C3. When the probe of the primary model and the probe of the fallback model both
  raise, \<open>check_qwen_model_availability\<close> returns \<open>(False, None)\<close>, and \<open>main\<close> returns
  normally right after its error message: the run consists of the page, the two
  probes with their messages and that error. \<open>generate_text_from_image\<close> is not called,
  and no uploader, selector, image, button or spinner is reached.
\<close>

theorem main_halts_without_vision_model:
  assumes "qwen_create env (qwen_calls w) (probe_request primary_model) = Inl e1"
    and "qwen_create env (Suc (qwen_calls w)) (probe_request fallback_model) = Inl e2"
  shows "fst (check_qwen_model_availability env w) = (False, None)
    \<and> fst (main env w) = Inr ()
    \<and> new_events w (snd (main env w)) =
        Invoke Main # page_events @
        [Invoke Check_qwen_model_availability,
         Chat_create (probe_request primary_model),
         St (St_warning (lit ''Qwen Model (qwen2-vl-7b-instruct) not available: '' @ str e1)),
         Chat_create (probe_request fallback_model),
         St (St_error (lit ''Fallback Qwen Model (qwen-vl-max) not available: '' @ str e2)),
         St (St_error (lit
           ''No Qwen vision model available. Please check your API key or available models in Alibaba Cloud Model Studio.''))]
    \<and> Invoke Generate_text_from_image \<notin> set (new_events w (snd (main env w)))
    \<and> filter is_widget (new_events w (snd (main env w))) = []"
proof -
  have probe: "fst (check_qwen_model_availability env w) = (False, None)"
    using assms
    by (simp add: check_qwen_model_availability_def chat_completions_create_def)
  have run: "main env w =
      (Inr (),
       w\<lparr>trace := trace w @ Invoke Main # page_events @
        [Invoke Check_qwen_model_availability,
         Chat_create (probe_request primary_model),
         St (St_warning (lit ''Qwen Model (qwen2-vl-7b-instruct) not available: '' @ str e1)),
         Chat_create (probe_request fallback_model),
         St (St_error (lit ''Fallback Qwen Model (qwen-vl-max) not available: '' @ str e2)),
         St (St_error (lit
           ''No Qwen vision model available. Please check your API key or available models in Alibaba Cloud Model Studio.''))],
         qwen_calls := Suc (Suc (qwen_calls w))\<rparr>)"
    using assms
    by (simp add: main_def check_qwen_model_availability_def chat_completions_create_def
        page_setup_def emit_def emits_def)
  have page: "Invoke Generate_text_from_image \<notin> set page_events"
    "filter is_widget page_events = []"
    by (simp_all add: page_events_def)
  from probe run page show ?thesis
    by (simp add: new_events_def)
qed

theorem main_halts_without_vision_model_witness:
  "qwen_create offline_env (qwen_calls start) (probe_request primary_model) =
     Inl (Exception (lit ''Connection error.''))
   \<and> qwen_create offline_env (Suc (qwen_calls start)) (probe_request fallback_model) =
     Inl (Exception (lit ''Connection error.''))
   \<and> fst (check_qwen_model_availability offline_env start) = (False, None)
   \<and> fst (main offline_env start) = Inr ()
   \<and> Invoke Generate_text_from_image \<notin> set (new_events start (snd (main offline_env start)))
   \<and> filter is_widget (new_events start (snd (main offline_env start))) = []"
proof -
  have p: "qwen_create offline_env (qwen_calls start) (probe_request primary_model) =
     Inl (Exception (lit ''Connection error.''))"
    and f: "qwen_create offline_env (Suc (qwen_calls start)) (probe_request fallback_model) =
     Inl (Exception (lit ''Connection error.''))"
    by (simp_all add: offline_env_def)
  from main_halts_without_vision_model [OF p f] p f show ?thesis by blast
qed

text \<open>
  C4. When the speech probe raises, so that it returns \<open>(False, None)\<close>, a run of
  \<open>main\<close> adds no entry of \<open>text_to_speech\<close>, no audio player and no download button to
  the trace. It still generates: with a vision model available, an image uploaded and
  decoded, the button pressed and a non-empty description returned, the run goes on
  after the vision probe exactly as listed, calling \<open>generate_text_from_image\<close>, writing
  the description and ending with the warning that speech is unavailable.
\<close>

theorem main_without_speech:
  assumes "speech_create env (openai_calls w) tts_probe_request = Inl e"
  shows "fst (check_openai_tts_availability env w) = (False, None)
    \<and> filter offers_speech (trace (snd (main env w))) = filter offers_speech (trace w)
    \<and> (check_qwen_model_availability env (page_setup (emit (Invoke Main) w)) =
          ((True, qwen_model), w1) \<and>
        file_uploader env = Some uploaded \<and> image_open env uploaded = Inr img \<and> button env \<and>
        save_png env img = Inr png \<and>
        qwen_create env (qwen_calls w1) (description_request qwen_model (b64encode env png)) =
          Inr (Chat_response (Some description # others)) \<and>
        description \<noteq> []
        \<longrightarrow> fst (main env w) = Inr () \<and>
            new_events w1 (snd (main env w)) =
              [St (St_success (lit ''Using Qwen model: '' @ format_value qwen_model)),
               Invoke Check_openai_tts_availability,
               Speech_create tts_probe_request,
               St (St_error (lit ''OpenAI TTS model (tts-1-hd) not available: '' @ str e)),
               St (St_warning (lit
                 ''TTS functionality is unavailable. The app will display the text description only.'')),
               St (St_file_uploader (lit ''Choose an image'') [lit ''png'', lit ''jpg'', lit ''jpeg'']),
               St (St_image img (lit ''Uploaded Image'') True),
               St (St_button (lit ''Generate Description and Speech'')),
               St (St_spinner (lit ''Generating text description...'')),
               Invoke Generate_text_from_image,
               Invoke Encode_image,
               Chat_create (description_request qwen_model (b64encode env png)),
               St (St_write (lit ''**Generated Description:**'')),
               St (St_write description),
               St (St_warning (lit
                 ''Text-to-speech is unavailable due to model access restrictions. The description is displayed above.''))])"
proof -
  let ?w0 = "page_setup (emit (Invoke Main) w)"
  obtain qa qm wq where q: "check_qwen_model_availability env ?w0 = ((qa, qm), wq)"
    by (metis surj_pair)
  have wq_speech: "filter offers_speech (trace wq) = filter offers_speech (trace w)"
    using offers_speech_check_qwen [of env ?w0] q
    by (simp add: trace_page_setup offers_speech_page_events)
  have wq_calls: "openai_calls wq = openai_calls w"
    using openai_calls_check_qwen [of env ?w0] q by (simp add: openai_calls_page_setup)
  let ?ws = "emit (St (St_success (lit ''Using Qwen model: '' @ format_value qm))) wq"
  have t: "check_openai_tts_availability env ?ws =
           ((False, None),
            ?ws\<lparr>trace := trace ?ws @
                 [Invoke Check_openai_tts_availability, Speech_create tts_probe_request,
                  St (St_error (lit ''OpenAI TTS model (tts-1-hd) not available: '' @ str e)),
                  St (St_warning (lit
                    ''TTS functionality is unavailable. The app will display the text description only.''))],
              openai_calls := Suc (openai_calls ?ws)\<rparr>)"
    using assms wq_calls by (intro check_tts_unavailable) simp
  have first: "filter offers_speech (trace (snd (main env w))) = filter offers_speech (trace w)"
    using wq_speech
    by (simp add: main_def q t flow_without_speech Let_def split: option.splits sum.splits)
  have second: "fst (main env w) = Inr () \<and>
            new_events w1 (snd (main env w)) =
              [St (St_success (lit ''Using Qwen model: '' @ format_value qwen_model)),
               Invoke Check_openai_tts_availability,
               Speech_create tts_probe_request,
               St (St_error (lit ''OpenAI TTS model (tts-1-hd) not available: '' @ str e)),
               St (St_warning (lit
                 ''TTS functionality is unavailable. The app will display the text description only.'')),
               St (St_file_uploader (lit ''Choose an image'') [lit ''png'', lit ''jpg'', lit ''jpeg'']),
               St (St_image img (lit ''Uploaded Image'') True),
               St (St_button (lit ''Generate Description and Speech'')),
               St (St_spinner (lit ''Generating text description...'')),
               Invoke Generate_text_from_image,
               Invoke Encode_image,
               Chat_create (description_request qwen_model (b64encode env png)),
               St (St_write (lit ''**Generated Description:**'')),
               St (St_write description),
               St (St_warning (lit
                 ''Text-to-speech is unavailable due to model access restrictions. The description is displayed above.''))]"
    if reach: "check_qwen_model_availability env ?w0 = ((True, qwen_model), w1)"
      "file_uploader env = Some uploaded" "image_open env uploaded = Inr img" "button env"
      "save_png env img = Inr png"
      "qwen_create env (qwen_calls w1) (description_request qwen_model (b64encode env png)) =
          Inr (Chat_response (Some description # others))"
      "description \<noteq> []"
  proof -
    from reach(1) q have eqs: "qa = True" "qm = qwen_model" "wq = w1" by simp_all
    show ?thesis
      using reach(2-7) t
      by (simp add: main_def q eqs generate_description_and_speech_def generate_succeeds
          new_events_def Let_def)
  qed
  have probe: "fst (check_openai_tts_availability env w) = (False, None)"
    using assms by (simp add: check_tts_unavailable)
  from probe first second show ?thesis by blast
qed

theorem main_without_speech_witness:
  "speech_create mute_env (openai_calls start) tts_probe_request =
     Inl (Exception (lit ''Incorrect API key provided.''))
   \<and> fst (check_openai_tts_availability mute_env start) = (False, None)
   \<and> fst (main mute_env start) = Inr ()
   \<and> filter offers_speech (trace (snd (main mute_env start))) =
       filter offers_speech (trace start)
   \<and> new_events (snd (check_qwen_model_availability mute_env
                        (page_setup (emit (Invoke Main) start))))
       (snd (main mute_env start)) =
      [St (St_success (lit ''Using Qwen model: '' @ format_value (Some primary_model))),
       Invoke Check_openai_tts_availability,
       Speech_create tts_probe_request,
       St (St_error (lit ''OpenAI TTS model (tts-1-hd) not available: '' @
                     str (Exception (lit ''Incorrect API key provided.'')))),
       St (St_warning (lit
         ''TTS functionality is unavailable. The app will display the text description only.'')),
       St (St_file_uploader (lit ''Choose an image'') [lit ''png'', lit ''jpg'', lit ''jpeg'']),
       St (St_image (Decoded [0, 0, 0]) (lit ''Uploaded Image'') True),
       St (St_button (lit ''Generate Description and Speech'')),
       St (St_spinner (lit ''Generating text description...'')),
       Invoke Generate_text_from_image,
       Invoke Encode_image,
       Chat_create (description_request (Some primary_model)
                      (b64encode mute_env [137, 80, 78, 71])),
       St (St_write (lit ''**Generated Description:**'')),
       St (St_write (lit ''A cat on a sofa.'')),
       St (St_warning (lit
         ''Text-to-speech is unavailable due to model access restrictions. The description is displayed above.''))]"
proof -
  let ?w0 = "page_setup (emit (Invoke Main) start)"
  let ?w1 = "snd (check_qwen_model_availability mute_env ?w0)"
  have t: "speech_create mute_env (openai_calls start) tts_probe_request =
     Inl (Exception (lit ''Incorrect API key provided.''))"
    by (simp add: mute_env_def)
  have "fst (check_qwen_model_availability mute_env ?w0) = (True, Some primary_model)"
    by (simp add: check_qwen_model_availability_def chat_completions_create_def
        mute_env_def demo_env_def)
  then have q: "check_qwen_model_availability mute_env ?w0 = ((True, Some primary_model), ?w1)"
    by (metis prod.collapse)
  have reach: "file_uploader mute_env = Some (Uploaded (lit ''cat.png'') [137, 80, 78, 71])"
    "image_open mute_env (Uploaded (lit ''cat.png'') [137, 80, 78, 71]) = Inr (Decoded [0, 0, 0])"
    "button mute_env"
    "save_png mute_env (Decoded [0, 0, 0]) = Inr [137, 80, 78, 71]"
    "qwen_create mute_env (qwen_calls ?w1)
       (description_request (Some primary_model) (b64encode mute_env [137, 80, 78, 71])) =
     Inr (Chat_response (Some (lit ''A cat on a sofa.'') # []))"
    "lit ''A cat on a sofa.'' \<noteq> []"
    by (simp_all add: mute_env_def demo_env_def)
  from main_without_speech [OF t, where ?w1.0 = ?w1 and qwen_model = "Some primary_model"
        and uploaded = "Uploaded (lit ''cat.png'') [137, 80, 78, 71]"
        and img = "Decoded [0, 0, 0]" and png = "[137, 80, 78, 71]"
        and description = "lit ''A cat on a sofa.''" and others = "[]"]
    q reach t
  show ?thesis by blast
qed

text \<open>
  C8. In a run of \<open>main\<close> that reaches the button with the button pressed, when
  \<open>generate_text_from_image\<close> returns \<open>None\<close> or the empty string the run ends in the world
  that call left: nothing is written with \<open>st.write\<close> after the probes, and the run adds
  no entry of \<open>text_to_speech\<close>, no audio player and no download button.
\<close>

theorem main_skips_after_falsy_description:
  assumes "check_qwen_model_availability env (page_setup (emit (Invoke Main) w)) =
             ((True, qwen_model), w1)"
    and "check_openai_tts_availability env
           (emit (St (St_success (lit ''Using Qwen model: '' @ format_value qwen_model))) w1) =
             ((tts_available, tts_model), w2)"
    and "file_uploader env = Some uploaded"
    and "image_open env uploaded = Inr img"
    and "button env"
    and "generate_text_from_image env img qwen_model
           (emit (St (St_spinner (lit ''Generating text description...'')))
             (emits [St (St_image img (lit ''Uploaded Image'') True),
                     St (St_button (lit ''Generate Description and Speech''))]
               (if tts_available
                then emit (St (St_selectbox (lit ''Choose the voice:'') voices))
                       (emit (St (St_file_uploader (lit ''Choose an image'')
                                    [lit ''png'', lit ''jpg'', lit ''jpeg''])) w2)
                else emit (St (St_file_uploader (lit ''Choose an image'')
                                 [lit ''png'', lit ''jpg'', lit ''jpeg''])) w2))) =
             (Inr description, w3)"
    and "\<not> truthy description"
  shows "main env w = (Inr (), w3)
    \<and> filter displays_text (trace w3) = filter displays_text (trace w2)
    \<and> filter offers_speech (trace w3) = filter offers_speech (trace w)"
proof -
  let ?up = "St (St_file_uploader (lit ''Choose an image'') [lit ''png'', lit ''jpg'', lit ''jpeg''])"
  let ?w4 = "if tts_available
             then emit (St (St_selectbox (lit ''Choose the voice:'') voices)) (emit ?up w2)
             else emit ?up w2"
  let ?w5 = "emits [St (St_image img (lit ''Uploaded Image'') True),
                    St (St_button (lit ''Generate Description and Speech''))] ?w4"
  let ?voice = "if tts_available then Some (selectbox env voices) else None"
  from falsy_description_ends_flow [OF assms(6,7), of tts_available ?voice tts_model]
  have flow: "generate_description_and_speech env img qwen_model tts_available ?voice tts_model ?w5
                = (Inr (), w3)"
    and shown: "filter displays_text (trace w3) = filter displays_text (trace ?w5)"
    and speech: "filter offers_speech (trace w3) = filter offers_speech (trace ?w5)"
    by blast+
  have run: "main env w = (Inr (), w3)"
    using assms(3-5) flow
    by (cases tts_available) (simp_all add: main_def assms(1,2) Let_def)
  have "filter displays_text (trace ?w5) = filter displays_text (trace w2)"
    by simp
  with shown have shown': "filter displays_text (trace w3) = filter displays_text (trace w2)"
    by simp
  have "filter offers_speech (trace w1) = filter offers_speech (trace w)"
    using offers_speech_check_qwen [of env "page_setup (emit (Invoke Main) w)"] assms(1)
    by (simp add: trace_page_setup offers_speech_page_events)
  moreover have "filter offers_speech (trace w2) = filter offers_speech (trace w1)"
    using offers_speech_check_tts
      [of env "emit (St (St_success (lit ''Using Qwen model: '' @ format_value qwen_model))) w1"]
      assms(2)
    by simp
  moreover have "filter offers_speech (trace ?w5) = filter offers_speech (trace w2)"
    by simp
  ultimately have "filter offers_speech (trace w3) = filter offers_speech (trace w)"
    using speech by simp
  with run shown' show ?thesis by simp
qed

theorem main_skips_after_falsy_description_witness:
  "\<not> truthy (Some [])
   \<and> fst (check_qwen_model_availability blank_env (page_setup (emit (Invoke Main) start))) =
       (True, Some primary_model)
   \<and> file_uploader blank_env = Some (Uploaded (lit ''cat.png'') [137, 80, 78, 71])
   \<and> button blank_env
   \<and> fst (main blank_env start) = Inr ()
   \<and> filter offers_speech (trace (snd (main blank_env start))) =
       filter offers_speech (trace start)"
proof -
  let ?w0 = "page_setup (emit (Invoke Main) start)"
  let ?w1 = "snd (check_qwen_model_availability blank_env ?w0)"
  let ?ws = "emit (St (St_success (lit ''Using Qwen model: '' @ format_value (Some primary_model))))
               ?w1"
  let ?w2 = "snd (check_openai_tts_availability blank_env ?ws)"
  let ?wg = "emit (St (St_spinner (lit ''Generating text description...'')))
             (emits [St (St_image (Decoded [0, 0, 0]) (lit ''Uploaded Image'') True),
                     St (St_button (lit ''Generate Description and Speech''))]
               (if True
                then emit (St (St_selectbox (lit ''Choose the voice:'') voices))
                       (emit (St (St_file_uploader (lit ''Choose an image'')
                                    [lit ''png'', lit ''jpg'', lit ''jpeg''])) ?w2)
                else emit (St (St_file_uploader (lit ''Choose an image'')
                                 [lit ''png'', lit ''jpg'', lit ''jpeg''])) ?w2))"
  let ?w3 = "snd (generate_text_from_image blank_env (Decoded [0, 0, 0]) (Some primary_model) ?wg)"
  have q1: "fst (check_qwen_model_availability blank_env ?w0) = (True, Some primary_model)"
    by (simp add: check_qwen_model_availability_def chat_completions_create_def
        blank_env_def probe_request_def)
  then have q: "check_qwen_model_availability blank_env ?w0 = ((True, Some primary_model), ?w1)"
    by (metis prod.collapse)
  have "fst (check_openai_tts_availability blank_env ?ws) = (True, Some tts_model_name)"
    by (simp add: check_openai_tts_availability_def audio_speech_create_def
        blank_env_def demo_env_def)
  then have t: "check_openai_tts_availability blank_env ?ws = ((True, Some tts_model_name), ?w2)"
    by (metis prod.collapse)
  have reach: "file_uploader blank_env = Some (Uploaded (lit ''cat.png'') [137, 80, 78, 71])"
    "image_open blank_env (Uploaded (lit ''cat.png'') [137, 80, 78, 71]) = Inr (Decoded [0, 0, 0])"
    "button blank_env"
    by (simp_all add: blank_env_def demo_env_def)
  have "fst (generate_text_from_image blank_env (Decoded [0, 0, 0]) (Some primary_model) ?wg) =
          Inr (Some [])"
    by (simp add: generate_text_from_image_def encode_image_def chat_completions_create_def
        first_item_def blank_env_def demo_env_def description_request_def)
  then have g: "generate_text_from_image blank_env (Decoded [0, 0, 0]) (Some primary_model) ?wg =
          (Inr (Some []), ?w3)"
    by (metis prod.collapse)
  have f: "\<not> truthy (Some [])"
    by (simp add: truthy_def)
  from main_skips_after_falsy_description [OF q t reach g f]
  have "main blank_env start = (Inr (), ?w3)"
    and "filter offers_speech (trace ?w3) = filter offers_speech (trace start)"
    by blast+
  with q1 reach(1,3) f show ?thesis by simp
qed

end
